theory Spec2Isabelle
  imports Main "HOL-Library.Word"
begin

section \<open>Alert identity and status model\<close>

text \<open>
  A fingerprint (\<^verbatim>\<open>model.Fingerprint\<close>) is an unsigned 64-bit number. Its \<^verbatim>\<open>String()\<close>
  is the number in sixteen lower-case hexadecimal digits.
\<close>

type_synonym Fingerprint = "64 word"

definition hex_digit :: "nat \<Rightarrow> char" where
  "hex_digit n = ''0123456789abcdef'' ! (n mod 16)"

definition Fingerprint_String :: "Fingerprint \<Rightarrow> string" where
  "Fingerprint_String f =
     map (\<lambda>i. hex_digit (unat (drop_bit (4 * i) f) mod 16)) (rev [0..<16])"

text \<open>
  Modelled from the spec: the type \<^verbatim>\<open>AlertState\<close>, whose declaration is not among the
  sources. The spec gives it as the closed enumeration Unprocessed, Active, Suppressed,
  Deleted; the sources use the four constants \<^verbatim>\<open>AlertStateUnprocessed\<close>,
  \<^verbatim>\<open>AlertStateActive\<close>, \<^verbatim>\<open>AlertStateSuppressed\<close> and \<^verbatim>\<open>AlertStateDeleted\<close>.
\<close>

datatype AlertState =
  AlertStateUnprocessed | AlertStateActive | AlertStateSuppressed | AlertStateDeleted

text \<open>
  Modelled from the spec: \<^verbatim>\<open>AlertState.String()\<close>, not among the sources. The labels
  are those of the enumeration \<^verbatim>\<open>alert_states\<close> of \<^verbatim>\<open>schema.sql\<close>, the column the
  string is written to.
\<close>

fun AlertState_String :: "AlertState \<Rightarrow> string" where
  "AlertState_String AlertStateUnprocessed = ''unprocessed''"
| "AlertState_String AlertStateActive = ''active''"
| "AlertState_String AlertStateSuppressed = ''suppressed''"
| "AlertState_String AlertStateDeleted = ''deleted''"

text \<open>
  Modelled from the spec: the struct \<^verbatim>\<open>AlertStatus\<close>, whose declaration is not among the
  sources: the state, the inhibitor list, and the silence and version metadata the
  Status Authority owns.
\<close>

record AlertStatus =
  State :: AlertState
  SilencedBy :: "string list"
  InhibitedBy :: "string list"
  pendingSilences :: "string list"
  silencesVersion :: int

section \<open>The Status Authority\<close>

text \<open>
  Modelled from the spec: the interface \<^verbatim>\<open>AlertMarker\<close> behind the \<^verbatim>\<open>marker\<close> the
  decorator holds. Its declaration is not among the sources; the spec lists its mutators
  and accessors with their results, and the decorator's calls show their arguments. The
  model keeps the six operations the mutating operations of the decorator call, as a
  dictionary of functions over the authority's state \<open>'m\<close>: a mutator returns the new
  state, an accessor only reads.
\<close>

record 'm marker =
  marker_Status :: "'m \<Rightarrow> Fingerprint \<Rightarrow> AlertStatus"
  marker_SetActiveOrSilenced ::
    "'m \<Rightarrow> Fingerprint \<Rightarrow> int \<Rightarrow> string list \<Rightarrow> string list \<Rightarrow> 'm"
  marker_Silenced :: "'m \<Rightarrow> Fingerprint \<Rightarrow> string list \<times> string list \<times> int \<times> bool"
  marker_SetInhibited :: "'m \<Rightarrow> Fingerprint \<Rightarrow> string list \<Rightarrow> 'm"
  marker_Inhibited :: "'m \<Rightarrow> Fingerprint \<Rightarrow> string list \<times> bool"
  marker_Delete :: "'m \<Rightarrow> Fingerprint \<Rightarrow> 'm"

text \<open>
  Modelled from the spec: the in-memory Status Authority \<^verbatim>\<open>MemMarker\<close> that
  \<^verbatim>\<open>NewStateAwareMarker\<close> builds with \<^verbatim>\<open>NewMarker\<close>. Its source file is not among the
  sources; the spec treats it as an external collaborator, "assumed correct and already
  implemented", that tracks whether an alert is silenced or inhibited and "may silently
  choose a default/no-op outcome depending on whether the alert already exists". The
  model is the marker's contract, as the tests of the decorator exercise it:
  \<^item> the state is a table from fingerprints to statuses, empty at first; a fingerprint
    without an entry has the status Unprocessed with no silences and no inhibitors;
  \<^item> \<^verbatim>\<open>SetActiveOrSilenced\<close> creates the entry if there is none and replaces the active
    silence IDs, the pending silence IDs and the version; with no active silence ID and
    no inhibitor the alert becomes Active, otherwise Suppressed (pending silences are
    stored and do not suppress);
  \<^item> \<^verbatim>\<open>SetInhibited\<close> creates the entry if there is none and replaces the inhibitor
    IDs; with no inhibitor ID and no active silence the alert becomes Active, otherwise
    Suppressed;
  \<^item> \<^verbatim>\<open>Silenced\<close> holds when the state is Suppressed and there is an active silence
    ID; \<^verbatim>\<open>Inhibited\<close> returns the stored inhibitor IDs and holds when the state is
    Suppressed and there is one;
  \<^item> \<^verbatim>\<open>Delete\<close> removes the entry.
  The table of muted groups is left out: no mutating operation on an alert reads or
  writes it. No test passes a pending silence ID and the spec does not say what one
  does to the state, so no theorem below says which event a call with pending silence
  IDs alone appends.
\<close>

type_synonym MemMarker = "Fingerprint \<rightharpoonup> AlertStatus"

text \<open>Modelled from the spec: \<^verbatim>\<open>NewMarker\<close>, the marker that has seen no alert.\<close>

definition NewMarker :: MemMarker where
  "NewMarker = Map.empty"

text \<open>Modelled from the spec: the status of a fingerprint without an entry.\<close>

definition unprocessed_status :: AlertStatus where
  "unprocessed_status =
     \<lparr>State = AlertStateUnprocessed, SilencedBy = [], InhibitedBy = [],
      pendingSilences = [], silencesVersion = 0\<rparr>"

text \<open>Modelled from the spec: \<^verbatim>\<open>MemMarker.Status\<close>.\<close>

definition MemMarker_Status :: "MemMarker \<Rightarrow> Fingerprint \<Rightarrow> AlertStatus" where
  "MemMarker_Status m alert = (case m alert of Some s \<Rightarrow> s | None \<Rightarrow> unprocessed_status)"

text \<open>
  Modelled from the spec: \<^verbatim>\<open>MemMarker.SetActiveOrSilenced\<close>. A new entry starts from
  the zero status; its state is overwritten before the entry can be read.
\<close>

definition MemMarker_SetActiveOrSilenced ::
  "MemMarker \<Rightarrow> Fingerprint \<Rightarrow> int \<Rightarrow> string list \<Rightarrow> string list \<Rightarrow> MemMarker" where
  "MemMarker_SetActiveOrSilenced m alert version activeIDs pendingIDs =
     (let s = (case m alert of Some s \<Rightarrow> s | None \<Rightarrow> unprocessed_status);
          s' = s\<lparr>SilencedBy := activeIDs, pendingSilences := pendingIDs,
                 silencesVersion := version\<rparr>
      in if length activeIDs = 0 \<and> length (InhibitedBy s') = 0
         then m(alert \<mapsto> s'\<lparr>State := AlertStateActive\<rparr>)
         else m(alert \<mapsto> s'\<lparr>State := AlertStateSuppressed\<rparr>))"

text \<open>Modelled from the spec: \<^verbatim>\<open>MemMarker.SetInhibited\<close>.\<close>

definition MemMarker_SetInhibited ::
  "MemMarker \<Rightarrow> Fingerprint \<Rightarrow> string list \<Rightarrow> MemMarker" where
  "MemMarker_SetInhibited m alert ids =
     (let s = (case m alert of Some s \<Rightarrow> s | None \<Rightarrow> unprocessed_status);
          s' = s\<lparr>InhibitedBy := ids\<rparr>
      in if length ids = 0 \<and> length (SilencedBy s') = 0
         then m(alert \<mapsto> s'\<lparr>State := AlertStateActive\<rparr>)
         else m(alert \<mapsto> s'\<lparr>State := AlertStateSuppressed\<rparr>))"

text \<open>Modelled from the spec: \<^verbatim>\<open>MemMarker.Silenced\<close>.\<close>

definition MemMarker_Silenced ::
  "MemMarker \<Rightarrow> Fingerprint \<Rightarrow> string list \<times> string list \<times> int \<times> bool" where
  "MemMarker_Silenced m alert =
     (let s = MemMarker_Status m alert
      in (SilencedBy s, pendingSilences s, silencesVersion s,
          State s = AlertStateSuppressed \<and> length (SilencedBy s) > 0))"

text \<open>Modelled from the spec: \<^verbatim>\<open>MemMarker.Inhibited\<close>.\<close>

definition MemMarker_Inhibited :: "MemMarker \<Rightarrow> Fingerprint \<Rightarrow> string list \<times> bool" where
  "MemMarker_Inhibited m alert =
     (let s = MemMarker_Status m alert
      in (InhibitedBy s, State s = AlertStateSuppressed \<and> length (InhibitedBy s) > 0))"

text \<open>Modelled from the spec: \<^verbatim>\<open>MemMarker.Delete\<close>.\<close>

definition MemMarker_Delete :: "MemMarker \<Rightarrow> Fingerprint \<Rightarrow> MemMarker" where
  "MemMarker_Delete m alert = m(alert := None)"

text \<open>The in-memory marker as an instance of the interface.\<close>

definition MemMarker_ops :: "MemMarker marker" where
  "MemMarker_ops =
     \<lparr>marker_Status = MemMarker_Status,
      marker_SetActiveOrSilenced = MemMarker_SetActiveOrSilenced,
      marker_Silenced = MemMarker_Silenced,
      marker_SetInhibited = MemMarker_SetInhibited,
      marker_Inhibited = MemMarker_Inhibited,
      marker_Delete = MemMarker_Delete\<rparr>"

section \<open>The transition-detecting decorator\<close>

text \<open>
  The decorator \<^verbatim>\<open>StateAwareMarker\<close> holds a marker and an appender. A call of the
  appender returns nothing to the decorator, so a mutating operation is modelled as a
  function from the marker's state to the new state and the list of appender calls it
  made, in order (what the mock appender of the tests records).
\<close>

datatype appender_call =
  AppendCall Fingerprint AlertState
| AppendInhibitedCall Fingerprint "string list"

definition StateAwareMarker_SetActiveOrSilenced ::
  "'m marker \<Rightarrow> 'm \<Rightarrow> Fingerprint \<Rightarrow> int \<Rightarrow> string list \<Rightarrow> string list
     \<Rightarrow> 'm \<times> appender_call list" where
  "StateAwareMarker_SetActiveOrSilenced mk m alert version activeSilenceIDs pendingSilenceIDs =
     (let currStatus = marker_Status mk m alert;
          m' = marker_SetActiveOrSilenced mk m alert version activeSilenceIDs pendingSilenceIDs;
          isSilenced = snd (snd (snd (marker_Silenced mk m' alert)))
      in if isSilenced then
           (if State currStatus \<noteq> AlertStateSuppressed
            then (m', [AppendCall alert AlertStateSuppressed])
            else (m', []))
         else if State currStatus = AlertStateSuppressed \<and> length (InhibitedBy currStatus) > 0
           then (m', [])
         else if State currStatus = AlertStateActive
           then (m', [])
         else (m', [AppendCall alert AlertStateActive]))"

definition StateAwareMarker_SetInhibited ::
  "'m marker \<Rightarrow> 'm \<Rightarrow> Fingerprint \<Rightarrow> string list \<Rightarrow> 'm \<times> appender_call list" where
  "StateAwareMarker_SetInhibited mk m alert alertIDs =
     (let currStatus = marker_Status mk m alert;
          m' = marker_SetInhibited mk m alert alertIDs;
          (by, isInhibited) = marker_Inhibited mk m' alert
      in if isInhibited then
           (if State currStatus \<noteq> AlertStateSuppressed
            then (m', [AppendInhibitedCall alert by])
            else if InhibitedBy currStatus \<noteq> alertIDs
              then (m', [AppendInhibitedCall alert by])
            else (m', []))
         else if State currStatus = AlertStateSuppressed \<or> State currStatus = AlertStateActive
           then (m', [])
         else (m', [AppendCall alert AlertStateActive]))"

definition StateAwareMarker_Delete ::
  "'m marker \<Rightarrow> 'm \<Rightarrow> Fingerprint \<Rightarrow> 'm \<times> appender_call list" where
  "StateAwareMarker_Delete mk m alert =
     (let currStatus = marker_Status mk m alert;
          m' = marker_Delete mk m alert
      in if State currStatus = AlertStateUnprocessed
         then (m', [])
         else (m', [AppendCall alert AlertStateDeleted]))"

text \<open>
  A serialized sequence of mutating calls: each call names its fingerprint, and the calls
  run one after the other on the marker's state. The appender calls are collected in
  order.
\<close>

datatype mutating_call =
  SetActiveOrSilenced int "string list" "string list"
| SetInhibited "string list"
| Delete

fun apply_call ::
  "'m marker \<Rightarrow> 'm \<Rightarrow> Fingerprint \<Rightarrow> mutating_call \<Rightarrow> 'm \<times> appender_call list" where
  "apply_call mk m alert (SetActiveOrSilenced version activeSilenceIDs pendingSilenceIDs) =
     StateAwareMarker_SetActiveOrSilenced mk m alert version activeSilenceIDs pendingSilenceIDs"
| "apply_call mk m alert (SetInhibited alertIDs) =
     StateAwareMarker_SetInhibited mk m alert alertIDs"
| "apply_call mk m alert Delete = StateAwareMarker_Delete mk m alert"

fun run_calls ::
  "'m marker \<Rightarrow> 'm \<Rightarrow> (Fingerprint \<times> mutating_call) list \<Rightarrow> 'm \<times> appender_call list" where
  "run_calls mk m [] = (m, [])"
| "run_calls mk m (c # cs) =
     (let r = apply_call mk m (fst c) (snd c);
          r' = run_calls mk (fst r) cs
      in (fst r', snd r @ snd r'))"

section \<open>The storage-backed append sink\<close>

text \<open>
  \<^verbatim>\<open>DuckDBStateAppender\<close> holds the store's appender and a logger. The model keeps the
  rows the store has accepted and the records the logger has received. What the
  environment does during one call is an input of the call: the result of
  \<^verbatim>\<open>uuid.NewV7()\<close>, the clock, and the error \<^verbatim>\<open>AppendRow\<close> returns (\<open>None\<close> for
  \<^verbatim>\<open>nil\<close>). A call either returns, with the new sink, or panics.
\<close>

type_synonym UUID = "8 word list"

record Row =
  row_id :: "8 word list"
  row_created_at :: int
  row_alert :: string
  row_state :: string
  row_suppressed_by :: "string option"
  row_suppressed_reason :: "string option"

record log_record =
  log_msg :: string
  log_error :: string

record DuckDBStateAppender =
  db :: "Row list"
  l :: "log_record list"

record env =
  NewV7 :: "string + UUID"
  Now :: int
  AppendRow_error :: "string option"

datatype panic = MustPanic string | IndexOutOfRange

datatype 'a outcome = Returned 'a | Panicked panic

text \<open>\<^verbatim>\<open>uuid.Must\<close> panics when it is handed an error.\<close>

definition uuid_Must :: "string + UUID \<Rightarrow> panic + UUID" where
  "uuid_Must r = (case r of Inl e \<Rightarrow> Inl (MustPanic e) | Inr u \<Rightarrow> Inr u)"

text \<open>\<^verbatim>\<open>UUID.MarshalBinary\<close> returns the sixteen bytes and a nil error.\<close>

definition UUID_MarshalBinary :: "UUID \<Rightarrow> string + 8 word list" where
  "UUID_MarshalBinary u = Inr u"

text \<open>
  \<^verbatim>\<open>AppendRow\<close> of the store's appender: the row joins the buffered rows unless the
  store reports an error.
\<close>

definition db_AppendRow :: "env \<Rightarrow> Row list \<Rightarrow> Row \<Rightarrow> Row list \<times> string option" where
  "db_AppendRow e rows r =
     (case AppendRow_error e of None \<Rightarrow> (rows @ [r], None) | Some err \<Rightarrow> (rows, Some err))"

definition l_Error :: "DuckDBStateAppender \<Rightarrow> string \<Rightarrow> string \<Rightarrow> DuckDBStateAppender" where
  "l_Error d m err = d\<lparr>l := l d @ [\<lparr>log_msg = m, log_error = err\<rparr>]\<rparr>"

text \<open>The deferred function of \<^verbatim>\<open>Append\<close>: it logs \<^verbatim>\<open>err\<close> when it is not nil.\<close>

definition Append_deferred ::
  "DuckDBStateAppender \<Rightarrow> string option \<Rightarrow> DuckDBStateAppender" where
  "Append_deferred d err =
     (case err of None \<Rightarrow> d
      | Some e \<Rightarrow> l_Error d ''failed to append alert state in db'' e)"

definition DuckDBStateAppender_Append ::
  "env \<Rightarrow> DuckDBStateAppender \<Rightarrow> Fingerprint \<Rightarrow> AlertState \<Rightarrow> DuckDBStateAppender outcome" where
  "DuckDBStateAppender_Append e d fingerprint st =
     (case uuid_Must (NewV7 e) of
        Inl p \<Rightarrow> Panicked p
      | Inr uid \<Rightarrow>
          (case UUID_MarshalBinary uid of
             Inl err \<Rightarrow> Returned (Append_deferred d (Some err))
           | Inr idBinary \<Rightarrow>
               if st = AlertStateSuppressed then
                 (let (rows, err) = db_AppendRow e (db d)
                        \<lparr>row_id = idBinary, row_created_at = Now e,
                         row_alert = Fingerprint_String fingerprint,
                         row_state = AlertState_String st,
                         row_suppressed_by = None, row_suppressed_reason = Some ''silenced''\<rparr>
                  in Returned (Append_deferred (d\<lparr>db := rows\<rparr>) err))
               else
                 (let (rows, err) = db_AppendRow e (db d)
                        \<lparr>row_id = idBinary, row_created_at = Now e,
                         row_alert = Fingerprint_String fingerprint,
                         row_state = AlertState_String st,
                         row_suppressed_by = None, row_suppressed_reason = None\<rparr>
                  in Returned (Append_deferred (d\<lparr>db := rows\<rparr>) err))))"

text \<open>
  \<^verbatim>\<open>inhibitedBy[0]\<close>: indexing an empty slice panics. The arguments of \<^verbatim>\<open>AppendRow\<close>
  are evaluated before the call, so the panic comes before any write.
\<close>

definition index0 :: "'a list \<Rightarrow> 'a option" where
  "index0 xs = (case xs of [] \<Rightarrow> None | x # _ \<Rightarrow> Some x)"

definition DuckDBStateAppender_AppendInhibited ::
  "env \<Rightarrow> DuckDBStateAppender \<Rightarrow> Fingerprint \<Rightarrow> string list
     \<Rightarrow> DuckDBStateAppender outcome" where
  "DuckDBStateAppender_AppendInhibited e d fingerprint inhibitedBy =
     (case uuid_Must (NewV7 e) of
        Inl p \<Rightarrow> Panicked p
      | Inr uid \<Rightarrow>
          (case UUID_MarshalBinary uid of
             Inl err \<Rightarrow> Returned d
           | Inr idBinary \<Rightarrow>
               (case index0 inhibitedBy of
                  None \<Rightarrow> Panicked IndexOutOfRange
                | Some by0 \<Rightarrow>
                    (let (rows, err) = db_AppendRow e (db d)
                           \<lparr>row_id = idBinary, row_created_at = Now e,
                            row_alert = Fingerprint_String fingerprint,
                            row_state = AlertState_String AlertStateSuppressed,
                            row_suppressed_by = Some by0, row_suppressed_reason = Some ''inhibited''\<rparr>
                     in case err of
                          None \<Rightarrow> Returned (d\<lparr>db := rows\<rparr>)
                        | Some er \<Rightarrow>
                            Returned (l_Error (d\<lparr>db := rows\<rparr>)
                              ''failed to append inhibited alert state in db'' er)))))"

text \<open>The sink receiving one call of the decorator.\<close>

fun deliver ::
  "env \<Rightarrow> DuckDBStateAppender \<Rightarrow> appender_call \<Rightarrow> DuckDBStateAppender outcome" where
  "deliver e d (AppendCall fingerprint st) = DuckDBStateAppender_Append e d fingerprint st"
| "deliver e d (AppendInhibitedCall fingerprint inhibitedBy) =
     DuckDBStateAppender_AppendInhibited e d fingerprint inhibitedBy"

text \<open>A whole list of calls reaches the sink in order; a panic ends the delivery.\<close>

fun deliver_all ::
  "env \<Rightarrow> DuckDBStateAppender \<Rightarrow> appender_call list \<Rightarrow> DuckDBStateAppender outcome" where
  "deliver_all e d [] = Returned d"
| "deliver_all e d (c # cs) =
     (case deliver e d c of Panicked p \<Rightarrow> Panicked p | Returned d' \<Rightarrow> deliver_all e d' cs)"

text \<open>
  The decorator wired to the storage-backed sink: the marker's state after the call and
  what became of the sink.
\<close>

definition StateAwareMarker_on_sink ::
  "env \<Rightarrow> 'm marker \<Rightarrow> 'm \<Rightarrow> DuckDBStateAppender \<Rightarrow> Fingerprint \<Rightarrow> mutating_call
     \<Rightarrow> 'm \<times> DuckDBStateAppender outcome" where
  "StateAwareMarker_on_sink e mk m d alert c =
     (let r = apply_call mk m alert c in (fst r, deliver_all e d (snd r)))"

text \<open>The mutation the decorator delegates to the marker, by itself.\<close>

fun marker_apply :: "'m marker \<Rightarrow> 'm \<Rightarrow> Fingerprint \<Rightarrow> mutating_call \<Rightarrow> 'm" where
  "marker_apply mk m alert (SetActiveOrSilenced version activeSilenceIDs pendingSilenceIDs) =
     marker_SetActiveOrSilenced mk m alert version activeSilenceIDs pendingSilenceIDs"
| "marker_apply mk m alert (SetInhibited alertIDs) = marker_SetInhibited mk m alert alertIDs"
| "marker_apply mk m alert Delete = marker_Delete mk m alert"

section \<open>What an appender call records\<close>

text \<open>
  The fingerprint, the state and the \<^verbatim>\<open>suppressed_by\<close>/\<^verbatim>\<open>suppressed_reason\<close> pair of
  the event an appender call stands for, as the sink writes them: \<^verbatim>\<open>Append\<close> writes no
  \<^verbatim>\<open>suppressed_by\<close> and the reason "silenced" for the state Suppressed only;
  \<^verbatim>\<open>AppendInhibited\<close> writes the state Suppressed, the first inhibitor and the reason
  "inhibited".
\<close>

fun call_fingerprint :: "appender_call \<Rightarrow> Fingerprint" where
  "call_fingerprint (AppendCall fingerprint st) = fingerprint"
| "call_fingerprint (AppendInhibitedCall fingerprint inhibitedBy) = fingerprint"

fun call_state :: "appender_call \<Rightarrow> AlertState" where
  "call_state (AppendCall fingerprint st) = st"
| "call_state (AppendInhibitedCall fingerprint inhibitedBy) = AlertStateSuppressed"

fun call_suppressed_by :: "appender_call \<Rightarrow> string option" where
  "call_suppressed_by (AppendCall fingerprint st) = None"
| "call_suppressed_by (AppendInhibitedCall fingerprint inhibitedBy) = index0 inhibitedBy"

fun call_suppressed_reason :: "appender_call \<Rightarrow> string option" where
  "call_suppressed_reason (AppendCall fingerprint st) =
     (if st = AlertStateSuppressed then Some ''silenced'' else None)"
| "call_suppressed_reason (AppendInhibitedCall fingerprint inhibitedBy) = Some ''inhibited''"

definition same_record :: "appender_call \<Rightarrow> appender_call \<Rightarrow> bool" where
  "same_record c c' =
     (call_state c = call_state c' \<and> call_suppressed_by c = call_suppressed_by c'
      \<and> call_suppressed_reason c = call_suppressed_reason c')"

fun is_inhibited_call :: "appender_call \<Rightarrow> bool" where
  "is_inhibited_call (AppendCall fingerprint st) = False"
| "is_inhibited_call (AppendInhibitedCall fingerprint inhibitedBy) = True"

definition events_for :: "Fingerprint \<Rightarrow> appender_call list \<Rightarrow> appender_call list" where
  "events_for alert cs = filter (\<lambda>c. call_fingerprint c = alert) cs"

text \<open>No two neighbours of the list record the same state and pair.\<close>

fun no_consecutive_repeat :: "appender_call list \<Rightarrow> bool" where
  "no_consecutive_repeat (c # c' # cs) =
     (\<not> same_record c c' \<and> no_consecutive_repeat (c' # cs))"
| "no_consecutive_repeat cs = True"

text \<open>The same, but for two neighbours that are both inhibited-suppressions.\<close>

definition step_ok :: "appender_call option \<Rightarrow> appender_call \<Rightarrow> bool" where
  "step_ok prev c' =
     (case prev of None \<Rightarrow> True
      | Some c \<Rightarrow> same_record c c' \<longrightarrow> is_inhibited_call c \<and> is_inhibited_call c')"

fun no_repeat_but_inhibited :: "appender_call list \<Rightarrow> bool" where
  "no_repeat_but_inhibited (c # c' # cs) =
     (step_ok (Some c) c' \<and> no_repeat_but_inhibited (c' # cs))"
| "no_repeat_but_inhibited cs = True"

text \<open>
  The invariant that ties the in-memory marker to the last event emitted for a
  fingerprint. An entry of the marker is Active with no silence and no inhibitor, or
  Suppressed with one of them. After an Active event the entry is Active; after a Deleted
  event there is no entry; after a silenced-Suppressed event the entry is Suppressed with
  no inhibitor. After an inhibited-suppression the entry may be in any state: the
  decorator is silent while the alert stays Suppressed.
\<close>

definition status_wf :: "AlertStatus \<Rightarrow> bool" where
  "status_wf s =
     (if SilencedBy s = [] \<and> InhibitedBy s = [] then State s = AlertStateActive
      else State s = AlertStateSuppressed)"

definition entry_wf :: "MemMarker \<Rightarrow> Fingerprint \<Rightarrow> bool" where
  "entry_wf m alert = (case m alert of None \<Rightarrow> True | Some s \<Rightarrow> status_wf s)"

fun last_agrees :: "appender_call option \<Rightarrow> AlertStatus option \<Rightarrow> bool" where
  "last_agrees None e = True"
| "last_agrees (Some (AppendInhibitedCall fingerprint inhibitedBy)) e = True"
| "last_agrees (Some (AppendCall fingerprint AlertStateActive)) e =
     (case e of None \<Rightarrow> False | Some s \<Rightarrow> State s = AlertStateActive)"
| "last_agrees (Some (AppendCall fingerprint AlertStateDeleted)) e = (e = None)"
| "last_agrees (Some (AppendCall fingerprint AlertStateSuppressed)) e =
     (case e of None \<Rightarrow> False
      | Some s \<Rightarrow> State s = AlertStateSuppressed \<and> InhibitedBy s = [])"
| "last_agrees (Some (AppendCall fingerprint AlertStateUnprocessed)) e = False"

definition log_inv :: "MemMarker \<Rightarrow> Fingerprint \<Rightarrow> appender_call option \<Rightarrow> bool" where
  "log_inv m alert prev = (entry_wf m alert \<and> last_agrees prev (m alert))"

definition after_prev :: "appender_call option \<Rightarrow> appender_call list \<Rightarrow> appender_call list" where
  "after_prev prev cs = (case prev of None \<Rightarrow> cs | Some c \<Rightarrow> c # cs)"

text \<open>Inputs of the examples: an identifier, and an environment in which all goes well.\<close>

definition uuid0 :: UUID where
  "uuid0 = [1, 147, 44, 7, 32, 155, 112, 1, 128, 2, 3, 4, 5, 6, 7, 8]"

definition env_ok :: env where
  "env_ok = \<lparr>NewV7 = Inr uuid0, Now = 1730000000, AppendRow_error = None\<rparr>"

definition sink0 :: DuckDBStateAppender where
  "sink0 = \<lparr>db = [], l = []\<rparr>"

section \<open>Unfolding rules\<close>

lemmas MemMarker_defs =
  MemMarker_ops_def NewMarker_def MemMarker_Status_def MemMarker_SetActiveOrSilenced_def
  MemMarker_SetInhibited_def MemMarker_Silenced_def MemMarker_Inhibited_def MemMarker_Delete_def
  unprocessed_status_def

lemmas decorator_defs =
  StateAwareMarker_SetActiveOrSilenced_def StateAwareMarker_SetInhibited_def
  StateAwareMarker_Delete_def

lemmas sink_defs =
  DuckDBStateAppender_Append_def DuckDBStateAppender_AppendInhibited_def uuid_Must_def
  UUID_MarshalBinary_def db_AppendRow_def l_Error_def Append_deferred_def index0_def

section \<open>The in-memory marker passes the decorator's tests\<close>

text \<open>
  The four tests of the decorator that expect appender calls, run on the model, with the
  fingerprints 1, 2 and 3 for the alerts \<^verbatim>\<open>a1\<close>, \<^verbatim>\<open>a2\<close> and \<^verbatim>\<open>a3\<close>. Each test
  expects exactly the calls listed here.
\<close>

lemma TestStateAwareMarker_Count:
  "snd (run_calls MemMarker_ops NewMarker
     [(1, SetActiveOrSilenced 1 [] []),
      (2, SetActiveOrSilenced 1 [''1''] []),
      (3, SetActiveOrSilenced 1 [''2''] []),
      (3, SetActiveOrSilenced 1 [] [])])
   = [AppendCall 1 AlertStateActive, AppendCall 2 AlertStateSuppressed,
      AppendCall 3 AlertStateSuppressed, AppendCall 3 AlertStateActive]"
  by code_simp

lemma TestStateAwareMarker_Duplicate:
  "snd (run_calls MemMarker_ops NewMarker
     [(1, SetActiveOrSilenced 1 [] []), (1, SetActiveOrSilenced 1 [] []),
      (1, SetInhibited [''0000000000000002'']), (1, SetInhibited [''0000000000000002'']),
      (1, SetActiveOrSilenced 1 [] []), (1, SetActiveOrSilenced 1 [] []),
      (1, SetInhibited [''0000000000000002'']), (1, SetInhibited [''0000000000000002'']),
      (1, Delete), (1, Delete)])
   = [AppendCall 1 AlertStateActive, AppendInhibitedCall 1 [''0000000000000002''],
      AppendCall 1 AlertStateDeleted]"
  by code_simp

lemma TestStateAwareMarker_SetInhibited:
  "snd (run_calls MemMarker_ops NewMarker
     [(1, SetInhibited [''0000000000000002'']), (1, SetInhibited [''0000000000000003''])])
   = [AppendInhibitedCall 1 [''0000000000000002''],
      AppendInhibitedCall 1 [''0000000000000003'']]"
  by code_simp

lemma TestStateAwareMarker_SetInhibited_NoInhibition:
  "snd (run_calls MemMarker_ops NewMarker
     [(1, SetActiveOrSilenced 1 [''1''] []), (1, SetInhibited []), (2, SetInhibited [])])
   = [AppendCall 1 AlertStateSuppressed, AppendCall 2 AlertStateActive]"
  by code_simp

lemma Fingerprint_String_2: "Fingerprint_String 2 = ''0000000000000002''"
  by code_simp

section \<open>The decision tables of the decorator\<close>

text \<open>
  C4: for every call of \<^verbatim>\<open>SetActiveOrSilenced\<close>, on any marker: when the marker reports
  the alert silenced after the mutation, exactly one Suppressed event is appended, unless
  the state of the snapshot taken before the mutation was Suppressed already (whatever
  the cause), and then nothing is appended; when it does not, nothing is appended if the
  snapshot was Suppressed with a non-empty \<^verbatim>\<open>InhibitedBy\<close> or was Active, and otherwise
  exactly one Active event is appended.
\<close>

theorem SetActiveOrSilenced_decision:
  "snd (StateAwareMarker_SetActiveOrSilenced mk m alert version activeSilenceIDs pendingSilenceIDs) =
     (let currStatus = marker_Status mk m alert;
          silenced = snd (snd (snd (marker_Silenced mk
            (marker_SetActiveOrSilenced mk m alert version activeSilenceIDs pendingSilenceIDs)
            alert)))
      in if silenced then
           (if State currStatus = AlertStateSuppressed then []
            else [AppendCall alert AlertStateSuppressed])
         else if (State currStatus = AlertStateSuppressed \<and> InhibitedBy currStatus \<noteq> [])
                 \<or> State currStatus = AlertStateActive
           then []
         else [AppendCall alert AlertStateActive])"
  by (simp add: StateAwareMarker_SetActiveOrSilenced_def Let_def)

theorem SetActiveOrSilenced_decision_witness:
  "snd (StateAwareMarker_SetActiveOrSilenced MemMarker_ops NewMarker 2 1 [''1''] [])
     = [AppendCall 2 AlertStateSuppressed]
   \<and> snd (StateAwareMarker_SetActiveOrSilenced MemMarker_ops
            (MemMarker_SetActiveOrSilenced NewMarker 2 1 [''1''] []) 2 1 [] [])
     = [AppendCall 2 AlertStateActive]"
  using SetActiveOrSilenced_decision [of MemMarker_ops NewMarker 2 1 "[''1'']" "[]"]
    SetActiveOrSilenced_decision
      [of MemMarker_ops "MemMarker_SetActiveOrSilenced NewMarker 2 1 [''1''] []" 2 1 "[]" "[]"]
  by (simp add: MemMarker_defs Let_def)

text \<open>
  C6: for every call of \<^verbatim>\<open>Delete\<close>, on any marker: the deletion is delegated to the
  marker, and exactly one Deleted event is appended, unless the state of the snapshot
  taken before the deletion was Unprocessed, and then no event is appended.
\<close>

theorem Delete_decision:
  "StateAwareMarker_Delete mk m alert =
     (marker_Delete mk m alert,
      if State (marker_Status mk m alert) = AlertStateUnprocessed then []
      else [AppendCall alert AlertStateDeleted])"
  by (simp add: StateAwareMarker_Delete_def Let_def)

theorem Delete_decision_witness:
  "StateAwareMarker_Delete MemMarker_ops NewMarker 1 = (MemMarker_Delete NewMarker 1, [])
   \<and> StateAwareMarker_Delete MemMarker_ops (MemMarker_SetActiveOrSilenced NewMarker 1 1 [] []) 1
     = (MemMarker_Delete (MemMarker_SetActiveOrSilenced NewMarker 1 1 [] []) 1,
        [AppendCall 1 AlertStateDeleted])"
  using Delete_decision [of MemMarker_ops NewMarker 1]
    Delete_decision [of MemMarker_ops "MemMarker_SetActiveOrSilenced NewMarker 1 1 [] []" 1]
  by (simp add: MemMarker_defs Let_def)

text \<open>
  C7: for every call of \<^verbatim>\<open>SetInhibited\<close>, on any marker, after which the marker reports
  the alert not inhibited: nothing is appended when the state of the snapshot taken
  before the mutation was Suppressed or Active, and otherwise exactly one Active event is
  appended.
\<close>

theorem SetInhibited_not_inhibited_decision:
  "\<not> snd (marker_Inhibited mk (marker_SetInhibited mk m alert alertIDs) alert) \<Longrightarrow>
   snd (StateAwareMarker_SetInhibited mk m alert alertIDs) =
     (if State (marker_Status mk m alert) = AlertStateSuppressed
         \<or> State (marker_Status mk m alert) = AlertStateActive
      then []
      else [AppendCall alert AlertStateActive])"
  by (simp add: StateAwareMarker_SetInhibited_def Let_def case_prod_beta)

theorem SetInhibited_not_inhibited_decision_witness:
  "\<not> snd (marker_Inhibited MemMarker_ops (marker_SetInhibited MemMarker_ops NewMarker 2 []) 2)
   \<and> snd (StateAwareMarker_SetInhibited MemMarker_ops NewMarker 2 [])
     = [AppendCall 2 AlertStateActive]"
proof -
  have h: "\<not> snd (marker_Inhibited MemMarker_ops
                    (marker_SetInhibited MemMarker_ops NewMarker 2 []) 2)"
    by (simp add: MemMarker_defs Let_def)
  show ?thesis
    using h SetInhibited_not_inhibited_decision [OF h] by (simp add: MemMarker_defs)
qed

text \<open>
  Whatever the marker, the source decides the inhibited branch on the identifiers the
  call was given: an already Suppressed alert gets a new inhibited-suppression when
  \<^verbatim>\<open>currStatus.InhibitedBy\<close> differs from \<^verbatim>\<open>alertIDs\<close>. The list appended is the one the
  marker resolved.
\<close>

lemma SetInhibited_inhibited_on_arguments:
  "marker_Inhibited mk (marker_SetInhibited mk m alert alertIDs) alert = (by, True) \<Longrightarrow>
   snd (StateAwareMarker_SetInhibited mk m alert alertIDs) =
     (if State (marker_Status mk m alert) \<noteq> AlertStateSuppressed
      then [AppendInhibitedCall alert by]
      else if InhibitedBy (marker_Status mk m alert) \<noteq> alertIDs
        then [AppendInhibitedCall alert by]
      else [])"
  by (simp add: StateAwareMarker_SetInhibited_def Let_def case_prod_beta)

text \<open>The in-memory marker resolves the inhibitors of a call to the identifiers given.\<close>

lemma MemMarker_Inhibited_resolves:
  "MemMarker_Inhibited (MemMarker_SetInhibited m alert alertIDs) alert = (by, b) \<Longrightarrow>
   by = alertIDs"
  by (auto simp: MemMarker_defs Let_def split: if_splits)

text \<open>
  C2: for every call of \<^verbatim>\<open>SetInhibited\<close> on the in-memory marker after which the marker
  reports the alert inhibited with the resolved inhibitor list \<open>by\<close>: if the state of the
  snapshot taken before the mutation was not Suppressed, exactly one inhibited-suppression
  with \<open>by\<close> is appended; if it was Suppressed, an inhibited-suppression with \<open>by\<close> is
  appended if and only if \<open>by\<close> differs, as a list, from the snapshot's \<^verbatim>\<open>InhibitedBy\<close>.
\<close>

theorem SetInhibited_inhibited_decision:
  "MemMarker_Inhibited (MemMarker_SetInhibited m alert alertIDs) alert = (by, True) \<Longrightarrow>
   snd (StateAwareMarker_SetInhibited MemMarker_ops m alert alertIDs) =
     (if State (MemMarker_Status m alert) \<noteq> AlertStateSuppressed
      then [AppendInhibitedCall alert by]
      else if by \<noteq> InhibitedBy (MemMarker_Status m alert)
        then [AppendInhibitedCall alert by]
      else [])"
  using SetInhibited_inhibited_on_arguments [of MemMarker_ops m alert alertIDs "by"]
    MemMarker_Inhibited_resolves [of m alert alertIDs "by" True]
  by (auto simp: MemMarker_ops_def)

theorem SetInhibited_inhibited_decision_witness:
  "MemMarker_Inhibited
     (MemMarker_SetInhibited (MemMarker_SetInhibited NewMarker 1 [''0000000000000002''])
        1 [''0000000000000003'']) 1 = ([''0000000000000003''], True)
   \<and> State (MemMarker_Status (MemMarker_SetInhibited NewMarker 1 [''0000000000000002'']) 1)
       = AlertStateSuppressed
   \<and> snd (StateAwareMarker_SetInhibited MemMarker_ops
            (MemMarker_SetInhibited NewMarker 1 [''0000000000000002'']) 1 [''0000000000000003''])
       = [AppendInhibitedCall 1 [''0000000000000003'']]"
proof -
  have h: "MemMarker_Inhibited
     (MemMarker_SetInhibited (MemMarker_SetInhibited NewMarker 1 [''0000000000000002''])
        1 [''0000000000000003'']) 1 = ([''0000000000000003''], True)"
    by (simp add: MemMarker_defs Let_def)
  show ?thesis
    using h SetInhibited_inhibited_decision [OF h] by (simp add: MemMarker_defs Let_def)
qed

section \<open>Repeated calls\<close>

text \<open>
  C3: for every fingerprint, every state of the in-memory marker and every mutating
  operation (\<^verbatim>\<open>SetActiveOrSilenced\<close>, \<^verbatim>\<open>SetInhibited\<close>, \<^verbatim>\<open>Delete\<close>), calling the operation
  twice in immediate succession with the same arguments appends at most once across both
  calls.
\<close>

theorem repeated_call_appends_at_most_once:
  "length (snd (run_calls MemMarker_ops m [(alert, c), (alert, c)])) \<le> 1"
  by (cases c)
     (auto simp: decorator_defs MemMarker_defs Let_def split: option.splits)

theorem repeated_call_appends_at_most_once_witness:
  "length (snd (run_calls MemMarker_ops NewMarker
      [(1, SetInhibited [''0000000000000002'']), (1, SetInhibited [''0000000000000002''])])) \<le> 1
   \<and> snd (run_calls MemMarker_ops NewMarker
      [(1, SetInhibited [''0000000000000002'']), (1, SetInhibited [''0000000000000002''])])
     = [AppendInhibitedCall 1 [''0000000000000002'']]"
  using repeated_call_appends_at_most_once [of NewMarker 1 "SetInhibited [''0000000000000002'']"]
  by (simp add: decorator_defs MemMarker_defs Let_def)

section \<open>The event log of a fingerprint\<close>

text \<open>A call on another fingerprint leaves the entry alone and emits nothing for this one.\<close>

lemma apply_call_frame:
  "alert' \<noteq> alert \<Longrightarrow>
   fst (apply_call MemMarker_ops m alert' c) alert = m alert
   \<and> events_for alert (snd (apply_call MemMarker_ops m alert' c)) = []"
  by (cases c) (auto simp: decorator_defs MemMarker_defs events_for_def Let_def)

text \<open>
  A call on the fingerprint keeps the invariant: it emits nothing and the last event
  still agrees with the entry, or it emits one event that agrees with the new entry and
  does not repeat the last one, two inhibited-suppressions apart.
\<close>

lemma apply_call_step:
  assumes "log_inv m alert prev"
  shows "(snd (apply_call MemMarker_ops m alert c) = []
            \<and> log_inv (fst (apply_call MemMarker_ops m alert c)) alert prev)
         \<or> (\<exists>e. snd (apply_call MemMarker_ops m alert c) = [e] \<and> call_fingerprint e = alert
              \<and> log_inv (fst (apply_call MemMarker_ops m alert c)) alert (Some e)
              \<and> step_ok prev e)"
proof (cases c)
  case (SetActiveOrSilenced version activeSilenceIDs pendingSilenceIDs)
  show ?thesis
    using assms unfolding SetActiveOrSilenced
    by (cases "(prev, m alert)" rule: last_agrees.cases)
       (auto simp: decorator_defs MemMarker_defs Let_def log_inv_def entry_wf_def status_wf_def
          step_ok_def same_record_def split: option.splits if_splits)
next
  case (SetInhibited alertIDs)
  show ?thesis
    using assms unfolding SetInhibited
    by (cases "(prev, m alert)" rule: last_agrees.cases)
       (auto simp: decorator_defs MemMarker_defs Let_def log_inv_def entry_wf_def status_wf_def
          step_ok_def same_record_def split: option.splits if_splits)
next
  case Delete
  show ?thesis
    using assms unfolding Delete
    by (cases "(prev, m alert)" rule: last_agrees.cases)
       (auto simp: decorator_defs MemMarker_defs Let_def log_inv_def entry_wf_def status_wf_def
          step_ok_def same_record_def split: option.splits if_splits)
qed

lemma run_calls_no_repeat:
  "log_inv m alert prev \<Longrightarrow>
   no_repeat_but_inhibited
     (after_prev prev (events_for alert (snd (run_calls MemMarker_ops m cs))))"
proof (induction cs arbitrary: m prev)
  case Nil
  then show ?case by (cases prev) (simp_all add: after_prev_def events_for_def)
next
  case (Cons c cs)
  obtain alert' k where c: "c = (alert', k)" by (cases c)
  let ?r = "apply_call MemMarker_ops m alert' k"
  have ev: "events_for alert (snd (run_calls MemMarker_ops m (c # cs)))
      = events_for alert (snd ?r) @ events_for alert (snd (run_calls MemMarker_ops (fst ?r) cs))"
    by (simp add: c events_for_def Let_def)
  show ?case
  proof (cases "alert' = alert")
    case False
    have f: "fst ?r alert = m alert" "events_for alert (snd ?r) = []"
      using apply_call_frame [OF False, of m k] by simp_all
    have "log_inv (fst ?r) alert prev"
      using Cons.prems f(1) by (simp add: log_inv_def entry_wf_def)
    from Cons.IH [OF this] show ?thesis unfolding ev f(2) by simp
  next
    case True
    from apply_call_step [OF Cons.prems, of k]
    consider "snd (apply_call MemMarker_ops m alert k) = []"
        "log_inv (fst (apply_call MemMarker_ops m alert k)) alert prev"
      | e where "snd (apply_call MemMarker_ops m alert k) = [e]" "call_fingerprint e = alert"
        "log_inv (fst (apply_call MemMarker_ops m alert k)) alert (Some e)" "step_ok prev e"
      by blast
    then show ?thesis
    proof cases
      case 1
      from Cons.IH [OF 1(2)] show ?thesis
        unfolding ev True 1(1) by (simp add: events_for_def)
    next
      case 2
      from Cons.IH [OF 2(3)]
      have "no_repeat_but_inhibited
              (e # events_for alert
                 (snd (run_calls MemMarker_ops (fst (apply_call MemMarker_ops m alert k)) cs)))"
        by (simp add: after_prev_def)
      with 2(4) show ?thesis
        unfolding ev True 2(1)
        by (cases prev) (simp_all add: 2(2) events_for_def after_prev_def)
    qed
  qed
qed

lemma NewMarker_log_inv: "log_inv NewMarker alert None"
  by (simp add: log_inv_def entry_wf_def NewMarker_def)

theorem consecutive_inhibited_repeat_counterexample:
  "events_for 1 (snd (run_calls MemMarker_ops NewMarker
      [(1, SetInhibited [''0000000000000002'']), (1, SetActiveOrSilenced 1 [''s1''] []),
       (1, SetInhibited []), (1, SetInhibited [''0000000000000002''])]))
     = [AppendInhibitedCall 1 [''0000000000000002''],
        AppendInhibitedCall 1 [''0000000000000002'']]
   \<and> \<not> no_consecutive_repeat (events_for 1 (snd (run_calls MemMarker_ops NewMarker
      [(1, SetInhibited [''0000000000000002'']), (1, SetActiveOrSilenced 1 [''s1''] []),
       (1, SetInhibited []), (1, SetInhibited [''0000000000000002''])])))"
  by code_simp

text \<open>
  C1, amended: for every serialized sequence of mutating calls (\<^verbatim>\<open>SetActiveOrSilenced\<close>,
  \<^verbatim>\<open>SetInhibited\<close>, \<^verbatim>\<open>Delete\<close>) on a new in-memory marker, and every fingerprint, the
  events the decorator emits to the appender for that fingerprint never contain two
  consecutive events with the same state and the same
  \<^verbatim>\<open>suppressed_by\<close>/\<^verbatim>\<open>suppressed_reason\<close> pair, unless both are inhibited-suppressions
  (\<^verbatim>\<open>AppendInhibited\<close>).
\<close>

theorem events_never_repeat_but_inhibited:
  "no_repeat_but_inhibited (events_for alert (snd (run_calls MemMarker_ops NewMarker cs)))"
  using run_calls_no_repeat [OF NewMarker_log_inv, of alert cs] by (simp add: after_prev_def)

theorem events_never_repeat_but_inhibited_witness:
  "no_repeat_but_inhibited (events_for 1 (snd (run_calls MemMarker_ops NewMarker
      [(1, SetActiveOrSilenced 1 [] []), (2, SetActiveOrSilenced 1 [''1''] []),
       (1, SetActiveOrSilenced 1 [''1''] []), (1, SetActiveOrSilenced 1 [] []),
       (1, Delete)])))
   \<and> events_for 1 (snd (run_calls MemMarker_ops NewMarker
      [(1, SetActiveOrSilenced 1 [] []), (2, SetActiveOrSilenced 1 [''1''] []),
       (1, SetActiveOrSilenced 1 [''1''] []), (1, SetActiveOrSilenced 1 [] []),
       (1, Delete)]))
     = [AppendCall 1 AlertStateActive, AppendCall 1 AlertStateSuppressed,
        AppendCall 1 AlertStateActive, AppendCall 1 AlertStateDeleted]"
proof -
  have ev: "events_for 1 (snd (run_calls MemMarker_ops NewMarker
      [(1, SetActiveOrSilenced 1 [] []), (2, SetActiveOrSilenced 1 [''1''] []),
       (1, SetActiveOrSilenced 1 [''1''] []), (1, SetActiveOrSilenced 1 [] []),
       (1, Delete)]))
     = [AppendCall 1 AlertStateActive, AppendCall 1 AlertStateSuppressed,
        AppendCall 1 AlertStateActive, AppendCall 1 AlertStateDeleted]"
    by code_simp
  show ?thesis
    using ev events_never_repeat_but_inhibited [of 1
      "[(1, SetActiveOrSilenced 1 [] []), (2, SetActiveOrSilenced 1 [''1''] []),
        (1, SetActiveOrSilenced 1 [''1''] []), (1, SetActiveOrSilenced 1 [] []),
        (1, Delete)]"]
    by simp
qed

section \<open>The storage-backed sink\<close>

lemma Append_row:
  "DuckDBStateAppender_Append e d fingerprint st = Returned d' \<Longrightarrow> db d' \<noteq> db d \<Longrightarrow>
   \<exists>r. db d' = db d @ [r] \<and> row_alert r = Fingerprint_String fingerprint
       \<and> row_state r = AlertState_String st \<and> row_suppressed_by r = None
       \<and> row_suppressed_reason r
           = (if st = AlertStateSuppressed then Some ''silenced'' else None)"
  by (auto simp: sink_defs split: sum.splits option.splits if_splits)

lemma AppendInhibited_row:
  "DuckDBStateAppender_AppendInhibited e d fingerprint inhibitedBy = Returned d' \<Longrightarrow>
   db d' \<noteq> db d \<Longrightarrow>
   \<exists>r. db d' = db d @ [r] \<and> row_alert r = Fingerprint_String fingerprint
       \<and> row_state r = AlertState_String AlertStateSuppressed
       \<and> inhibitedBy \<noteq> [] \<and> row_suppressed_by r = Some (inhibitedBy ! 0)
       \<and> row_suppressed_reason r = Some ''inhibited''"
  by (auto simp: sink_defs split: sum.splits option.splits if_splits list.splits)

text \<open>
  With an identifier and no error from the store, the call returns the sink with exactly
  one more row, the one built from the call.
\<close>

lemma Append_writes:
  "NewV7 e = Inr uid \<Longrightarrow> AppendRow_error e = None \<Longrightarrow>
   DuckDBStateAppender_Append e d fingerprint st =
     Returned (d\<lparr>db := db d @
       [\<lparr>row_id = uid, row_created_at = Now e,
         row_alert = Fingerprint_String fingerprint,
         row_state = AlertState_String st,
         row_suppressed_by = None,
         row_suppressed_reason
           = (if st = AlertStateSuppressed then Some ''silenced'' else None)\<rparr>]\<rparr>)"
  by (simp add: sink_defs)

lemma AppendInhibited_writes:
  "NewV7 e = Inr uid \<Longrightarrow> AppendRow_error e = None \<Longrightarrow> inhibitedBy \<noteq> [] \<Longrightarrow>
   DuckDBStateAppender_AppendInhibited e d fingerprint inhibitedBy =
     Returned (d\<lparr>db := db d @
       [\<lparr>row_id = uid, row_created_at = Now e,
         row_alert = Fingerprint_String fingerprint,
         row_state = AlertState_String AlertStateSuppressed,
         row_suppressed_by = Some (inhibitedBy ! 0),
         row_suppressed_reason = Some ''inhibited''\<rparr>]\<rparr>)"
  by (cases inhibitedBy) (simp_all add: sink_defs)

text \<open>
  C8: the storage-backed sink writes, and every row it writes has the fields of the call.
  When the identifier is generated and the store reports no error, \<^verbatim>\<open>Append\<close> returns
  the sink with one more row: the identifier, the clock, the fingerprint's string, the
  state's string, no \<^verbatim>\<open>suppressed_by\<close>, and the reason "silenced" for the state
  Suppressed and none for any other state; \<^verbatim>\<open>AppendInhibited\<close> with a non-empty list
  returns the sink with one more row: the state Suppressed, the first inhibitor alone as
  \<^verbatim>\<open>suppressed_by\<close>, and the reason "inhibited". Nothing else is ever written: whenever
  a call returns with the rows changed, the change is that one row with those fields.
\<close>

theorem sink_row_fields:
  "(NewV7 e = Inr uid \<and> AppendRow_error e = None \<longrightarrow>
      DuckDBStateAppender_Append e d fingerprint st =
        Returned (d\<lparr>db := db d @
          [\<lparr>row_id = uid, row_created_at = Now e,
            row_alert = Fingerprint_String fingerprint,
            row_state = AlertState_String st,
            row_suppressed_by = None,
            row_suppressed_reason
              = (if st = AlertStateSuppressed then Some ''silenced'' else None)\<rparr>]\<rparr>)
      \<and> (inhibitedBy \<noteq> [] \<longrightarrow>
          DuckDBStateAppender_AppendInhibited e d fingerprint inhibitedBy =
            Returned (d\<lparr>db := db d @
              [\<lparr>row_id = uid, row_created_at = Now e,
                row_alert = Fingerprint_String fingerprint,
                row_state = AlertState_String AlertStateSuppressed,
                row_suppressed_by = Some (inhibitedBy ! 0),
                row_suppressed_reason = Some ''inhibited''\<rparr>]\<rparr>)))
   \<and> (DuckDBStateAppender_Append e d fingerprint st = Returned d1 \<and> db d1 \<noteq> db d \<longrightarrow>
      (\<exists>r. db d1 = db d @ [r] \<and> row_alert r = Fingerprint_String fingerprint
         \<and> row_state r = AlertState_String st \<and> row_suppressed_by r = None
         \<and> row_suppressed_reason r
             = (if st = AlertStateSuppressed then Some ''silenced'' else None)))
   \<and> (DuckDBStateAppender_AppendInhibited e d fingerprint inhibitedBy = Returned d2
        \<and> db d2 \<noteq> db d \<longrightarrow>
      (\<exists>r. db d2 = db d @ [r] \<and> row_alert r = Fingerprint_String fingerprint
         \<and> row_state r = AlertState_String AlertStateSuppressed
         \<and> inhibitedBy \<noteq> [] \<and> row_suppressed_by r = Some (inhibitedBy ! 0)
         \<and> row_suppressed_reason r = Some ''inhibited''))"
  using Append_writes [of e uid d fingerprint st]
    AppendInhibited_writes [of e uid inhibitedBy d fingerprint]
    Append_row [of e d fingerprint st d1]
    AppendInhibited_row [of e d fingerprint inhibitedBy d2]
  by blast

theorem sink_row_fields_witness:
  "NewV7 env_ok = Inr uuid0 \<and> AppendRow_error env_ok = None
   \<and> [''0000000000000003'', ''0000000000000004''] \<noteq> []
   \<and> DuckDBStateAppender_Append env_ok sink0 2 AlertStateSuppressed
     = Returned \<lparr>db = [\<lparr>row_id = uuid0, row_created_at = 1730000000,
                        row_alert = ''0000000000000002'', row_state = ''suppressed'',
                        row_suppressed_by = None,
                        row_suppressed_reason = Some ''silenced''\<rparr>], l = []\<rparr>
   \<and> DuckDBStateAppender_Append env_ok sink0 2 AlertStateDeleted
     = Returned \<lparr>db = [\<lparr>row_id = uuid0, row_created_at = 1730000000,
                        row_alert = ''0000000000000002'', row_state = ''deleted'',
                        row_suppressed_by = None,
                        row_suppressed_reason = None\<rparr>], l = []\<rparr>
   \<and> DuckDBStateAppender_AppendInhibited env_ok sink0 2
       [''0000000000000003'', ''0000000000000004'']
     = Returned \<lparr>db = [\<lparr>row_id = uuid0, row_created_at = 1730000000,
                        row_alert = ''0000000000000002'', row_state = ''suppressed'',
                        row_suppressed_by = Some ''0000000000000003'',
                        row_suppressed_reason = Some ''inhibited''\<rparr>], l = []\<rparr>"
proof -
  have h: "NewV7 env_ok = Inr uuid0" "AppendRow_error env_ok = None"
    by (simp_all add: env_ok_def)
  show ?thesis
    using h
      sink_row_fields [where e = env_ok and uid = uuid0 and d = sink0 and fingerprint = 2
        and st = AlertStateSuppressed
        and inhibitedBy = "[''0000000000000003'', ''0000000000000004'']"]
      sink_row_fields [where e = env_ok and uid = uuid0 and d = sink0 and fingerprint = 2
        and st = AlertStateDeleted
        and inhibitedBy = "[''0000000000000003'', ''0000000000000004'']"]
    by (simp add: env_ok_def sink0_def Fingerprint_String_2)
qed

text \<open>
  C10: \<^verbatim>\<open>AppendInhibited\<close> needs a non-empty \<^verbatim>\<open>inhibitedBy\<close>: it indexes the first
  element without a check. Every call with an empty \<^verbatim>\<open>inhibitedBy\<close> panics: it writes no
  row, logs no error and does not return; once the identifier is there, the panic is the
  index out of range. The index has a value exactly when the list is non-empty, it is
  then the first element, and the call does not panic on the index.
\<close>

theorem AppendInhibited_needs_nonempty:
  "(\<exists>p. DuckDBStateAppender_AppendInhibited e d fingerprint [] = Panicked p)
   \<and> (\<forall>uid. NewV7 e = Inr uid \<longrightarrow>
         DuckDBStateAppender_AppendInhibited e d fingerprint [] = Panicked IndexOutOfRange)
   \<and> (index0 inhibitedBy = None \<longleftrightarrow> inhibitedBy = [])
   \<and> (inhibitedBy \<noteq> [] \<longrightarrow>
         index0 inhibitedBy = Some (inhibitedBy ! 0)
         \<and> DuckDBStateAppender_AppendInhibited e d fingerprint inhibitedBy
             \<noteq> Panicked IndexOutOfRange)"
  by (auto simp: sink_defs split: sum.splits option.splits if_splits list.splits)

theorem AppendInhibited_needs_nonempty_witness:
  "NewV7 env_ok = Inr uuid0
   \<and> DuckDBStateAppender_AppendInhibited env_ok sink0 2 [] = Panicked IndexOutOfRange
   \<and> [''0000000000000003''] \<noteq> []
   \<and> index0 [''0000000000000003''] = Some ''0000000000000003''
   \<and> DuckDBStateAppender_AppendInhibited env_ok sink0 2 [''0000000000000003'']
       \<noteq> Panicked IndexOutOfRange"
  using AppendInhibited_needs_nonempty [of env_ok sink0 2 "[''0000000000000003'']"]
  by (simp add: env_ok_def)

lemma Append_panics:
  "NewV7 e = Inl err \<Longrightarrow>
   DuckDBStateAppender_Append e d fingerprint st = Panicked (MustPanic err)"
  by (simp add: sink_defs)

lemma AppendInhibited_panics:
  "NewV7 e = Inl err \<Longrightarrow>
   DuckDBStateAppender_AppendInhibited e d fingerprint inhibitedBy = Panicked (MustPanic err)"
  by (simp add: sink_defs)

lemma Append_returns:
  "NewV7 e = Inr uid \<Longrightarrow>
   \<exists>d'. DuckDBStateAppender_Append e d fingerprint st = Returned d'
     \<and> (case AppendRow_error e of
           Some err \<Rightarrow> db d' = db d
              \<and> l d' = l d @ [\<lparr>log_msg = ''failed to append alert state in db'',
                                log_error = err\<rparr>]
         | None \<Rightarrow> length (db d') = Suc (length (db d)) \<and> l d' = l d)"
  by (auto simp: sink_defs split: option.splits)

lemma AppendInhibited_returns:
  "NewV7 e = Inr uid \<Longrightarrow> inhibitedBy \<noteq> [] \<Longrightarrow>
   \<exists>d'. DuckDBStateAppender_AppendInhibited e d fingerprint inhibitedBy = Returned d'
     \<and> (case AppendRow_error e of
           Some err \<Rightarrow> db d' = db d
              \<and> l d' = l d @ [\<lparr>log_msg = ''failed to append inhibited alert state in db'',
                                log_error = err\<rparr>]
         | None \<Rightarrow> length (db d') = Suc (length (db d)) \<and> l d' = l d)"
  by (auto simp: sink_defs split: option.splits list.splits)

lemma on_sink_marker:
  "fst (StateAwareMarker_on_sink e mk m d alert c) = marker_apply mk m alert c"
  by (cases c)
     (simp_all add: StateAwareMarker_on_sink_def decorator_defs Let_def case_prod_beta)

theorem Append_id_failure_panics_counterexample:
  "DuckDBStateAppender_Append
      \<lparr>NewV7 = Inl ''entropy source failed'', Now = 1730000000, AppendRow_error = None\<rparr>
      sink0 2 AlertStateActive
     = Panicked (MustPanic ''entropy source failed'')"
  by (simp add: sink_defs)

text \<open>
  C9, amended: for every call of \<^verbatim>\<open>Append\<close>, and every call of \<^verbatim>\<open>AppendInhibited\<close> with a
  non-empty \<^verbatim>\<open>inhibitedBy\<close>, in which the identifier is generated: the call returns; when
  the store's write fails, the failure is logged with its message and the error, no row
  is written and nothing reaches the caller; when the write succeeds, one row is
  written and nothing is logged. When the identifier cannot be generated, the call
  panics (\<^verbatim>\<open>uuid.Must\<close>). The marker's state after a decorated call is the one the
  marker's own mutator produced, whatever the sink and its environment did.
\<close>

theorem sink_failures:
  "(\<forall>err. NewV7 e = Inl err \<longrightarrow>
       DuckDBStateAppender_Append e d fingerprint st = Panicked (MustPanic err)
       \<and> DuckDBStateAppender_AppendInhibited e d fingerprint inhibitedBy
           = Panicked (MustPanic err))
   \<and> (\<forall>uid. NewV7 e = Inr uid \<longrightarrow>
       (\<exists>d'. DuckDBStateAppender_Append e d fingerprint st = Returned d'
          \<and> (case AppendRow_error e of
                Some err \<Rightarrow> db d' = db d
                  \<and> l d' = l d @ [\<lparr>log_msg = ''failed to append alert state in db'',
                                    log_error = err\<rparr>]
              | None \<Rightarrow> length (db d') = Suc (length (db d)) \<and> l d' = l d))
       \<and> (inhibitedBy \<noteq> [] \<longrightarrow>
           (\<exists>d'. DuckDBStateAppender_AppendInhibited e d fingerprint inhibitedBy = Returned d'
              \<and> (case AppendRow_error e of
                    Some err \<Rightarrow> db d' = db d
                      \<and> l d' = l d
                          @ [\<lparr>log_msg = ''failed to append inhibited alert state in db'',
                              log_error = err\<rparr>]
                  | None \<Rightarrow> length (db d') = Suc (length (db d)) \<and> l d' = l d))))
   \<and> fst (StateAwareMarker_on_sink e mk m d alert c) = marker_apply mk m alert c"
  using Append_panics [of e _ d fingerprint st]
    AppendInhibited_panics [of e _ d fingerprint inhibitedBy]
    Append_returns [of e _ d fingerprint st]
    AppendInhibited_returns [of e _ inhibitedBy d fingerprint]
    on_sink_marker [of e mk m d alert c]
  by blast

theorem sink_failures_witness:
  "NewV7 (env_ok\<lparr>AppendRow_error := Some ''disk full''\<rparr>) = Inr uuid0
   \<and> DuckDBStateAppender_Append (env_ok\<lparr>AppendRow_error := Some ''disk full''\<rparr>) sink0 2
       AlertStateActive
     = Returned \<lparr>db = [], l = [\<lparr>log_msg = ''failed to append alert state in db'',
                                 log_error = ''disk full''\<rparr>]\<rparr>
   \<and> [''0000000000000003''] \<noteq> []
   \<and> DuckDBStateAppender_AppendInhibited (env_ok\<lparr>AppendRow_error := Some ''disk full''\<rparr>)
       sink0 2 [''0000000000000003'']
     = Returned \<lparr>db = [], l = [\<lparr>log_msg = ''failed to append inhibited alert state in db'',
                                 log_error = ''disk full''\<rparr>]\<rparr>
   \<and> fst (StateAwareMarker_on_sink (env_ok\<lparr>AppendRow_error := Some ''disk full''\<rparr>)
            MemMarker_ops NewMarker sink0 2 (SetInhibited [''0000000000000003'']))
     = MemMarker_SetInhibited NewMarker 2 [''0000000000000003'']"
proof -
  let ?e = "env_ok\<lparr>AppendRow_error := Some ''disk full''\<rparr>"
  have a: "DuckDBStateAppender_Append ?e sink0 2 AlertStateActive
     = Returned \<lparr>db = [], l = [\<lparr>log_msg = ''failed to append alert state in db'',
                                 log_error = ''disk full''\<rparr>]\<rparr>"
    by (simp add: sink_defs env_ok_def sink0_def)
  have b: "DuckDBStateAppender_AppendInhibited ?e sink0 2 [''0000000000000003'']
     = Returned \<lparr>db = [], l = [\<lparr>log_msg = ''failed to append inhibited alert state in db'',
                                 log_error = ''disk full''\<rparr>]\<rparr>"
    by (simp add: sink_defs env_ok_def sink0_def)
  show ?thesis
    using a b
      sink_failures [of ?e sink0 2 AlertStateActive "[''0000000000000003'']" MemMarker_ops
        NewMarker 2 "SetInhibited [''0000000000000003'']"]
    by (simp add: env_ok_def MemMarker_ops_def)
qed

end
